theory Spec2Isabelle
  imports Complex_Main
begin

section \<open>Instants and the date helpers\<close>

text \<open>
  A JavaScript \<open>Date\<close> is modelled by its time value: the number of milliseconds since
  the epoch, an integer. Calendar days are the civil days of one fixed zone without
  daylight-saving shifts, so a day is always \<open>msPerDay\<close> milliseconds long.
\<close>

type_synonym instant = int

definition msPerDay :: int where
  "msPerDay = 86400000"

text \<open>\<open>date-fns/add_milliseconds\<close>: a new date, the given number of milliseconds later.\<close>

definition addMilliseconds :: "instant \<Rightarrow> int \<Rightarrow> instant" where
  "addMilliseconds d amount = d + amount"

text \<open>\<open>date-fns/add_days\<close>: a new date, the given number of calendar days later.\<close>

definition addDays :: "instant \<Rightarrow> int \<Rightarrow> instant" where
  "addDays d amount = d + amount * msPerDay"

definition startOfDay :: "instant \<Rightarrow> instant" where
  "startOfDay d = d - d mod msPerDay"

definition timeOfDay :: "instant \<Rightarrow> int" where
  "timeOfDay d = d mod msPerDay"

text \<open>
  Modelled from the spec: \<open>dates.diff\<close> of \<open>utils/dates\<close> is not among the sources. The
  spec gives the duration computed by \<open>getEventTimes\<close> as "original end - start".
\<close>

definition dates_diff :: "instant \<Rightarrow> instant \<Rightarrow> int" where
  "dates_diff a b = b - a"

text \<open>
  Modelled from the spec: \<open>helpers.merge\<close> of \<open>addons/dragAndDrop/helpers\<close> is not among
  the sources. The spec says that the new start "preserves the original time-of-day merged
  onto the new date": the day of the first argument, the time of day of the second.
\<close>

definition helpers_merge :: "instant \<Rightarrow> instant \<Rightarrow> instant" where
  "helpers_merge date time = startOfDay date + timeOfDay time"

section \<open>The drop-target adapter: \<open>getEventTimes\<close>\<close>

record eventTimes =
  nextStart :: instant
  nextEnd :: instant

definition getEventTimes :: "instant \<Rightarrow> instant \<Rightarrow> instant \<Rightarrow> string \<Rightarrow> eventTimes" where
  "getEventTimes start end' dropDate type' =
     (let duration = dates_diff start end';
          nextStart' = (if type' = ''dateCellWrapper'' then helpers_merge dropDate start
                        else dropDate);
          nextEnd' = addMilliseconds nextStart' duration
      in \<lparr>nextStart = nextStart', nextEnd = nextEnd'\<rparr>)"

section \<open>Events, segments, positions\<close>

text \<open>
  An event id is either supplied by the host or produced by \<open>cuid()\<close>; the generator is
  modelled by a counter, so two generated ids differ and none equals a host id.
\<close>

datatype ident = HostId string | Cuid nat

record 'a event =
  ev_id :: ident
  ev_eventTemplateId :: "ident option"
  ev_locked :: "bool option"
  ev_type :: "string option"
  ev_start :: instant
  ev_end :: instant
  ev_weight :: rat
  ev_rest :: 'a

text \<open>
  A segment is a plain JavaScript object; the hover handler builds segments by object
  spread from objects that may lack every key, so each key is optional (\<open>None\<close> is
  \<open>undefined\<close>).
\<close>

record 'a segment =
  seg_event :: "'a event option"
  seg_left :: "int option"
  seg_right :: "int option"
  seg_span :: "int option"
  seg_level :: "int option"
  seg_isHidden :: "bool option"

definition emptyObj :: "'a segment" where
  "emptyObj = \<lparr>seg_event = None, seg_left = None, seg_right = None, seg_span = None,
                seg_level = None, seg_isHidden = None\<rparr>"

text \<open>
  A position \<open>{level, left}\<close>. The level is optional because the outside-insert branch
  copies it from a segment; \<open>span\<close> is present only on the position built there.
\<close>

record position =
  pos_level :: "int option"
  pos_left :: int
  pos_span :: "int option"

text \<open>The item of a drag: \<open>{type, data, position: {span}}\<close>; \<open>item_position\<close> is the span.\<close>

record 'a item =
  item_type :: string
  item_data :: "'a event"
  item_position :: "int option"

section \<open>The world: window globals, component state, calls made to the host\<close>

datatype 'a call =
    OnEventReorder "'a event option" "'a event" "int option" "int option" "'a event option list"
  | OnEventResize string "'a event" instant instant
  | OnEventDrop string "'a event" instant instant
  | OnEventDrop1 "'a event" instant instant
  | OnOutsideEventDrop "'a event" instant
  | OnBackgroundCellEnter instant "'a item option"

record 'a world =
  RBC_DRAG_POS :: "position option"
  RBC_RESIZE_VALUE :: "instant option"
  st_drag :: "position option"
  st_hover :: "position option"
  st_hoverData :: "'a event option"
  st_levels :: "'a segment list list"
  st_insertedOutsideEvent :: bool
  cuid_next :: nat
  calls :: "'a call list"

text \<open>
  What the handlers take from their surroundings: \<open>withLevels\<close> (the packing engine of
  \<open>utils/eventLevels\<close>, not among the sources, closed over the other props; of the
  object it returns only the key \<open>levels\<close> is kept), the JavaScript engine's
  \<open>Array.prototype.sort\<close> (its order is implementation-defined for a comparator that
  never answers 0), \<open>props.events\<close>, whether the context supplies \<open>onEventReorder\<close>,
  and \<open>Date.prototype.toString\<close>.
\<close>

record 'a env =
  withLevels :: "'a event list \<Rightarrow> 'a segment list list"
  arraySort :: "('a event \<Rightarrow> 'a event \<Rightarrow> int) \<Rightarrow> 'a event list \<Rightarrow> 'a event list"
  props_events :: "'a event list"
  ctx_onEventReorder :: bool
  toString :: "instant \<Rightarrow> string"

datatype error = TypeError | ReferenceError

section \<open>\<open>DateContentRowWrapper\<close>: the drag, hover and drop handlers\<close>

definition posEq :: "position \<Rightarrow> position \<Rightarrow> bool" where
  "posEq a b = (pos_left a = pos_left b \<and> pos_level a = pos_level b)"

definition handleSegmentDrag :: "position option \<Rightarrow> 'a world \<Rightarrow> 'a world" where
  "handleSegmentDrag drag w = w\<lparr>RBC_DRAG_POS := drag\<rparr>"

definition handleBackgroundCellHoverExit :: "'a env \<Rightarrow> 'a world \<Rightarrow> 'a world" where
  "handleBackgroundCellHoverExit env w =
     (let props = withLevels env (props_events env) in w)"

text \<open>Ramda's \<open>findIndex\<close>: the first index that satisfies the predicate, or \<open>-1\<close>.\<close>

fun findIndex :: "('x \<Rightarrow> bool) \<Rightarrow> 'x list \<Rightarrow> int" where
  "findIndex p [] = - 1"
| "findIndex p (x # xs) =
     (if p x then 0 else (let i = findIndex p xs in if i = - 1 then - 1 else i + 1))"

definition propEq_left :: "int \<Rightarrow> 'a segment \<Rightarrow> bool" where
  "propEq_left v seg = (seg_left seg = Some v)"

text \<open>
  Reading \<open>xs[i]\<close>: the index at which the array has an element, if any. Outside the
  array, and for an undefined index, the read gives \<open>undefined\<close>.
\<close>

definition arrayIndex :: "'x list \<Rightarrow> int option \<Rightarrow> nat option" where
  "arrayIndex xs i =
     (case i of None \<Rightarrow> None
      | Some j \<Rightarrow> if 0 \<le> j \<and> j < int (length xs) then Some (nat j) else None)"

definition weightCmp :: "'a event \<Rightarrow> 'a event \<Rightarrow> int" where
  "weightCmp a b = (if ev_weight a < ev_weight b then - 1 else 1)"

text \<open>The loop over \<open>levels.levels\<close> that looks for the segment of the new event.\<close>

fun findInLevels :: "'a event \<Rightarrow> 'a segment list list \<Rightarrow> 'a segment option" where
  "findInLevels data [] = None"
| "findInLevels data (lvl # lvls) =
     (case find (\<lambda>seg. seg_event seg = Some data) lvl of
        Some nextDragData \<Rightarrow> Some nextDragData
      | None \<Rightarrow> findInLevels data lvls)"

text \<open>The branch of \<open>handleSegmentHover\<close> for a drag that comes from outside the calendar.\<close>

definition insertOutsideEvent ::
  "'a env \<Rightarrow> position \<Rightarrow> 'a event option \<Rightarrow> 'a item \<Rightarrow> 'a world \<Rightarrow> error + 'a world" where
  "insertOutsideEvent env hover hoverData dragEvent w =
     (case item_position dragEvent of
        None \<Rightarrow> Inl TypeError
      | Some span' \<Rightarrow>
          (case hoverData of
             None \<Rightarrow> Inl TypeError
           | Some hData \<Rightarrow>
               (let dragPos = hover\<lparr>pos_span := Some span',
                                   pos_level := map_option (\<lambda>l. l + 1) (pos_level hover)\<rparr>;
                    dragData = item_data dragEvent;
                    data = dragData\<lparr>ev_id := Cuid (cuid_next w),
                                    ev_eventTemplateId := Some (ev_id dragData),
                                    ev_locked := Some False,
                                    ev_start := ev_start hData,
                                    ev_end := addDays (ev_start hData) span',
                                    ev_weight := ev_weight hData - 1 / 2\<rparr>;
                    events = arraySort env weightCmp (props_events env @ [data]);
                    levels = withLevels env events
                in case findInLevels data levels of
                     None \<Rightarrow> Inl TypeError
                   | Some nextDragData \<Rightarrow>
                       Inr (w\<lparr>st_levels := levels,
                              st_drag := Some (dragPos\<lparr>pos_level := seg_level nextDragData\<rparr>),
                              st_insertedOutsideEvent := True,
                              cuid_next := Suc (cuid_next w)\<rparr>))))"

text \<open>One entry of \<open>cellSegs\<close>: the pair of \<open>idx\<close> and the other keys of the object.\<close>

definition cellSeg :: "int \<Rightarrow> 'a segment list \<Rightarrow> int \<times> 'a segment" where
  "cellSeg dleft segs =
     (let idx = findIndex (propEq_left dleft) segs
      in if idx = - 1 then (idx, emptyObj)
         else (idx, (segs ! nat idx)\<lparr>seg_isHidden := Some False\<rparr>))"

text \<open>The \<open>forEach\<close> that writes the cell's segments back into their rows.\<close>

definition writeBack ::
  "(int \<times> 'a segment) list \<Rightarrow> 'a segment list list \<Rightarrow> 'a segment list list" where
  "writeBack cellSegs levels =
     map (\<lambda>i. case cellSegs ! i of
                 (idx, seg) \<Rightarrow>
                   if idx = - 1 then levels ! i
                   else (levels ! i)[nat idx := seg\<lparr>seg_level := Some (int i)\<rparr>])
         [0..<length levels]"

text \<open>The rest of \<open>handleSegmentHover\<close>, once drag and hover positions differ.\<close>

definition swapSegments ::
  "position \<Rightarrow> 'a event option \<Rightarrow> position \<Rightarrow> 'a world \<Rightarrow> error + 'a world" where
  "swapSegments hover hoverData drag w =
     (let dlevel = pos_level drag; dleft = pos_left drag;
          hlevel = pos_level hover;
          levels = st_levels w;
          cellSegs = map (cellSeg dleft) levels
      in case arrayIndex cellSegs dlevel of
           None \<Rightarrow> Inl TypeError
         | Some di \<Rightarrow>
             (case arrayIndex cellSegs hlevel of
                None \<Rightarrow> Inl TypeError
              | Some hi \<Rightarrow>
                  (case (cellSegs ! di, cellSegs ! hi) of
                     ((didx, dseg0), (hidx, hseg)) \<Rightarrow>
                       (let dseg = dseg0\<lparr>seg_isHidden := Some True\<rparr>;
                            cellSegs1 = cellSegs[di := (didx, hseg)];
                            cellSegs2 = cellSegs1[hi := (hidx, dseg\<lparr>seg_level := hlevel\<rparr>)]
                        in Inr (w\<lparr>st_levels := writeBack cellSegs2 levels,
                                  RBC_DRAG_POS := Some (drag\<lparr>pos_level := hlevel\<rparr>),
                                  st_hover := Some hover,
                                  st_hoverData := hoverData\<rparr>)))))"

definition handleSegmentHover ::
  "'a env \<Rightarrow> position \<Rightarrow> 'a event option \<Rightarrow> 'a item \<Rightarrow> 'a world \<Rightarrow> error + 'a world" where
  "handleSegmentHover env hover hoverData dragEvent w =
     (if \<not> st_insertedOutsideEvent w \<and> item_type dragEvent = ''outsideEvent''
      then insertOutsideEvent env hover hoverData dragEvent w
      else (case RBC_DRAG_POS w of
              None \<Rightarrow> Inl TypeError
            | Some drag \<Rightarrow>
                if posEq drag hover then Inr w
                else swapSegments hover hoverData drag w))"


text \<open>The \<open>reduce\<close> of \<open>handleSegmentDrop\<close>: the events of the rows' segments at a column.\<close>

definition columnEvents :: "int \<Rightarrow> 'a segment list list \<Rightarrow> 'a event option list" where
  "columnEvents dleft levels =
     foldl (\<lambda>acc row. case find (\<lambda>seg. seg_left seg = Some dleft) row of
                         Some seg \<Rightarrow> acc @ [seg_event seg]
                       | None \<Rightarrow> acc)
           [] levels"

definition handleSegmentDrop :: "'a env \<Rightarrow> position \<Rightarrow> 'a world \<Rightarrow> error + 'a world" where
  "handleSegmentDrop env dropPos w =
     (case st_hoverData w of
        None \<Rightarrow> Inr w
      | Some hoverData \<Rightarrow>
          (case RBC_DRAG_POS w of
             None \<Rightarrow> Inl TypeError
           | Some drag \<Rightarrow>
               (case arrayIndex (st_levels w) (pos_level drag) of
                  None \<Rightarrow> Inl TypeError
                | Some l \<Rightarrow>
                    (case find (\<lambda>seg. seg_left seg = Some (pos_left drag)) (st_levels w ! l) of
                       None \<Rightarrow> Inr (w\<lparr>st_drag := None, st_hover := None, st_hoverData := None\<rparr>)
                     | Some dragSeg \<Rightarrow>
                         (let dragData = seg_event dragSeg;
                              events = columnEvents (pos_left drag) (st_levels w);
                              w1 = (if ctx_onEventReorder env
                                    then w\<lparr>calls := calls w @
                                           [OnEventReorder dragData hoverData (pos_level drag)
                                              (pos_level dropPos) events]\<rparr>
                                    else w)
                          in Inr (w1\<lparr>RBC_DRAG_POS := None, st_hover := None,
                                     st_hoverData := None\<rparr>))))))"

section \<open>The drop-target adapter: \<open>DraggableBackgroundWrapper\<close> and \<open>dropTarget\<close>\<close>

text \<open>
  Modelled from the spec: the constants of \<open>./itemTypes\<close> are not among the sources. The
  spec names the item types "event" and "resize", the two types the drop target is
  registered for.
\<close>

definition ItemTypes_EVENT :: string where
  "ItemTypes_EVENT = ''event''"

definition ItemTypes_RESIZE :: string where
  "ItemTypes_RESIZE = ''resize''"

text \<open>
  A call of a handler of the context is recorded at the end of the world's call log. The
  drop target calls \<open>onEventDrop\<close>, \<open>onEventResize\<close>, \<open>onOutsideEventDrop\<close> and
  \<open>onBackgroundCellEnter\<close> without a guard; the context is taken to supply them.
\<close>

definition invoke :: "'a call \<Rightarrow> 'a world \<Rightarrow> 'a world" where
  "invoke c w = w\<lparr>calls := calls w @ [c]\<rparr>"

text \<open>
  The accessors \<open>get(event, startAccessor)\<close> and \<open>get(event, endAccessor)\<close> are the
  fields \<open>ev_start\<close> and \<open>ev_end\<close>. The context's \<open>onBackgroundCellHoverExit\<close> is the
  handler that \<open>DateContentRowWrapper\<close> puts into the child context.
\<close>

definition componentWillReceiveProps ::
  "'a env \<Rightarrow> instant \<Rightarrow> 'a item option \<Rightarrow> bool \<Rightarrow> bool \<Rightarrow> 'a world \<Rightarrow> 'a world" where
  "componentWillReceiveProps env value monitorItem wasOver isOver w =
     (let w1 = (if isOver \<and> \<not> wasOver then invoke (OnBackgroundCellEnter value monitorItem) w
                else w)
      in if \<not> isOver \<and> wasOver then handleBackgroundCellHoverExit env w1 else w1)"

text \<open>
  \<open>dropTarget.drop\<close> and \<open>dropTarget.hover\<close> of the wrapper created for \<open>type'\<close>, on the
  cell whose value is \<open>value\<close>; \<open>itemType\<close> is \<open>monitor.getItemType()\<close> and the item is
  \<open>monitor.getItem()\<close>. These are the functions of the later revision of the file (the
  one that knows \<open>onBackgroundCellEnter\<close>, \<open>src/unnamed/part_001\<close>).
\<close>

definition dropTarget_drop ::
  "string \<Rightarrow> instant \<Rightarrow> string \<Rightarrow> 'a item \<Rightarrow> 'a world \<Rightarrow> 'a world" where
  "dropTarget_drop type' value itemType monitorItem w =
     (let event = item_data monitorItem; eventType = item_type monitorItem;
          start = ev_start event; end' = ev_end event
      in if itemType = ItemTypes_EVENT then
           (if ev_type event = Some ''outsideEvent'' then invoke (OnOutsideEventDrop event value) w
            else (let t = getEventTimes start end' value type'
                  in invoke (OnEventDrop ''drop'' event (nextStart t) (nextEnd t)) w))
         else if itemType = ''resize'' then
           (if eventType = ''resizeL'' then invoke (OnEventResize ''drop'' event value end') w
            else if eventType = ''resizeR'' then invoke (OnEventResize ''drop'' event start value) w
            else w)
         else w)"

text \<open>
  The hover sets \<open>window.RBC_RESIZE_VALUE\<close> before it looks at the item, and its branch
  for a moved event calls \<open>onEventDrop\<close>, a name that \<open>hover\<close> never binds (it takes
  only \<open>onEventResize\<close> and the two accessors from the context): that call throws a
  \<open>ReferenceError\<close> after the cell has been written. The result is therefore the
  exception thrown, if any, together with the world the call leaves behind.
\<close>

definition dropTarget_hover ::
  "'a env \<Rightarrow> string \<Rightarrow> instant \<Rightarrow> string \<Rightarrow> 'a item \<Rightarrow> 'a world \<Rightarrow> error option \<times> 'a world" where
  "dropTarget_hover env type' value itemType monitorItem w =
     (if (case RBC_RESIZE_VALUE w of
            None \<Rightarrow> False
          | Some v \<Rightarrow> toString env v = toString env value)
      then (None, w)
      else (let event = item_data monitorItem; eventType = item_type monitorItem;
                start = ev_start event; end' = ev_end event;
                w1 = w\<lparr>RBC_RESIZE_VALUE := Some value\<rparr>
            in if itemType = ItemTypes_RESIZE then
                 (if eventType = ''resizeL'' then
                    (None, invoke (OnEventResize ''hover'' event value end') w1)
                  else if eventType = ''resizeR'' then
                    (None, invoke (OnEventResize ''hover'' event start value) w1)
                  else (None, w1))
               else if itemType = ItemTypes_EVENT \<and> eventType \<noteq> ''outsideEvent'' then
                 (Some ReferenceError, w1)
               else (None, w1)))"

text \<open>
  The same two functions as \<open>src/addons/dragAndDrop/backgroundWrapper.js\<close> has them: the
  drop of an event reads the item's own type and passes no phase, the hover handles the
  resize items only and reports them with the phase of a drop.
\<close>

definition bw_dropTarget_drop ::
  "string \<Rightarrow> instant \<Rightarrow> string \<Rightarrow> 'a item \<Rightarrow> 'a world \<Rightarrow> 'a world" where
  "bw_dropTarget_drop type' value itemType monitorItem w =
     (let event = item_data monitorItem; eventType = item_type monitorItem;
          start = ev_start event; end' = ev_end event
      in if itemType = ItemTypes_EVENT then
           (if eventType = ''outsideEvent'' then invoke (OnOutsideEventDrop event value) w
            else (let t = getEventTimes start end' value type'
                  in invoke (OnEventDrop1 event (nextStart t) (nextEnd t)) w))
         else if itemType = ''resize'' then
           (if eventType = ''resizeL'' then invoke (OnEventResize ''drop'' event value end') w
            else if eventType = ''resizeR'' then invoke (OnEventResize ''drop'' event start value) w
            else w)
         else w)"

definition bw_dropTarget_hover ::
  "'a env \<Rightarrow> instant \<Rightarrow> string \<Rightarrow> 'a item \<Rightarrow> 'a world \<Rightarrow> 'a world" where
  "bw_dropTarget_hover env value itemType monitorItem w =
     (if (case RBC_RESIZE_VALUE w of
            None \<Rightarrow> False
          | Some v \<Rightarrow> toString env v = toString env value)
      then w
      else (let event = item_data monitorItem; eventType = item_type monitorItem;
                start = ev_start event; end' = ev_end event;
                w1 = w\<lparr>RBC_RESIZE_VALUE := Some value\<rparr>
            in if itemType = ItemTypes_RESIZE then
                 (if eventType = ''resizeL'' then invoke (OnEventResize ''drop'' event value end') w1
                  else if eventType = ''resizeR'' then
                    invoke (OnEventResize ''drop'' event start value) w1
                  else w1)
               else w1))"

section \<open>Sample inputs\<close>

text \<open>
  Concrete events, rows and worlds on which the handlers are run below. \<open>onePerRow\<close> is
  a stand-in for the packing engine that gives every event a row of its own at column 3;
  \<open>insertionSort\<close> is a stand-in for the engine's sort; \<open>sampleToString\<close> prints with
  the resolution of one second, as \<open>Date.prototype.toString\<close> does.
\<close>

definition sampleEvent :: "string \<Rightarrow> rat \<Rightarrow> unit event" where
  "sampleEvent name weight =
     \<lparr>ev_id = HostId name, ev_eventTemplateId = None, ev_locked = None, ev_type = None,
      ev_start = 1709251200000, ev_end = 1709337600000, ev_weight = weight, ev_rest = ()\<rparr>"

definition sampleSeg :: "unit event \<Rightarrow> int \<Rightarrow> int \<Rightarrow> unit segment" where
  "sampleSeg e l lvl =
     \<lparr>seg_event = Some e, seg_left = Some l, seg_right = Some l, seg_span = Some 1,
      seg_level = Some lvl, seg_isHidden = None\<rparr>"

definition samplePos :: "int \<Rightarrow> int \<Rightarrow> position" where
  "samplePos lvl l = \<lparr>pos_level = Some lvl, pos_left = l, pos_span = None\<rparr>"

definition sampleLevels :: "unit segment list list" where
  "sampleLevels =
     [[sampleSeg (sampleEvent ''A'' 1) 3 0],
      [sampleSeg (sampleEvent ''B'' 2) 3 1, sampleSeg (sampleEvent ''C'' 3) 5 1]]"

fun onePerRow :: "nat \<Rightarrow> unit event list \<Rightarrow> unit segment list list" where
  "onePerRow i [] = []"
| "onePerRow i (e # es) = [sampleSeg e 3 (int i)] # onePerRow (Suc i) es"

fun insertBy :: "('x \<Rightarrow> 'x \<Rightarrow> int) \<Rightarrow> 'x \<Rightarrow> 'x list \<Rightarrow> 'x list" where
  "insertBy cmp x [] = [x]"
| "insertBy cmp x (y # ys) = (if cmp x y < 0 then x # y # ys else y # insertBy cmp x ys)"

definition insertionSort :: "('x \<Rightarrow> 'x \<Rightarrow> int) \<Rightarrow> 'x list \<Rightarrow> 'x list" where
  "insertionSort cmp xs = foldl (\<lambda>acc x. insertBy cmp x acc) [] xs"

definition sampleToString :: "instant \<Rightarrow> string" where
  "sampleToString v =
     (if v div 1000 = 0 then ''Thu Jan 01 1970 00:00:00 GMT+0000''
      else if v div 1000 = 1 then ''Thu Jan 01 1970 00:00:01 GMT+0000''
      else ''later'')"

definition sampleEnv :: "unit env" where
  "sampleEnv =
     \<lparr>withLevels = onePerRow 0, arraySort = insertionSort,
      props_events = [sampleEvent ''A'' 1, sampleEvent ''B'' 2],
      ctx_onEventReorder = True, toString = sampleToString\<rparr>"

definition sampleWorld :: "unit world" where
  "sampleWorld =
     \<lparr>RBC_DRAG_POS = Some (samplePos 0 3), RBC_RESIZE_VALUE = None,
      st_drag = None, st_hover = None, st_hoverData = None,
      st_levels = sampleLevels, st_insertedOutsideEvent = False,
      cuid_next = 0, calls = []\<rparr>"

definition sampleItem :: "string \<Rightarrow> unit item" where
  "sampleItem ty = \<lparr>item_type = ty, item_data = sampleEvent ''A'' 1, item_position = Some 2\<rparr>"

definition hoveredWorld :: "unit world" where
  "hoveredWorld =
     sampleWorld
       \<lparr>RBC_DRAG_POS := Some (samplePos 1 3),
        st_hover := Some (samplePos 1 5),
        st_hoverData := Some (sampleEvent ''C'' 3),
        st_levels :=
          [[(sampleSeg (sampleEvent ''B'' 2) 3 0)\<lparr>seg_isHidden := Some False\<rparr>],
           [(sampleSeg (sampleEvent ''A'' 1) 3 1)\<lparr>seg_isHidden := Some True\<rparr>,
            sampleSeg (sampleEvent ''C'' 3) 5 1]]\<rparr>"

definition droppedWorld :: "unit world" where
  "droppedWorld =
     hoveredWorld
       \<lparr>calls := [OnEventReorder (Some (sampleEvent ''A'' 1)) (sampleEvent ''C'' 3) (Some 1) (Some 1)
                    [Some (sampleEvent ''B'' 2), Some (sampleEvent ''A'' 1)]],
        RBC_DRAG_POS := None, st_hover := None, st_hoverData := None\<rparr>"

definition sameColumnWorld :: "unit world" where
  "sameColumnWorld = hoveredWorld\<lparr>st_hover := Some (samplePos 1 3)\<rparr>"

definition insertedEvent :: "unit event" where
  "insertedEvent =
     (sampleEvent ''A'' 1)
       \<lparr>ev_id := Cuid 0, ev_eventTemplateId := Some (HostId ''A''), ev_locked := Some False,
        ev_start := 1709251200000, ev_end := 1709424000000, ev_weight := 5 / 2\<rparr>"

definition rehoveredWorld :: "unit world" where
  "rehoveredWorld =
     sampleWorld
       \<lparr>RBC_DRAG_POS := Some (samplePos 1 3),
        st_drag := Some \<lparr>pos_level = Some 2, pos_left = 5, pos_span = Some 2\<rparr>,
        st_hover := Some (samplePos 1 5),
        st_hoverData := Some (sampleEvent ''C'' 3),
        st_levels :=
          [[(sampleSeg (sampleEvent ''B'' 2) 3 0)\<lparr>seg_isHidden := Some False\<rparr>],
           [(sampleSeg (sampleEvent ''A'' 1) 3 1)\<lparr>seg_isHidden := Some True\<rparr>],
           [(sampleSeg insertedEvent 3 2)\<lparr>seg_isHidden := Some False\<rparr>]],
        st_insertedOutsideEvent := True,
        cuid_next := 1\<rparr>"

definition insertedWorld :: "unit world" where
  "insertedWorld =
     sampleWorld
       \<lparr>st_levels := [[sampleSeg (sampleEvent ''A'' 1) 3 0], [sampleSeg (sampleEvent ''B'' 2) 3 1],
                      [sampleSeg insertedEvent 3 2]],
        st_drag := Some \<lparr>pos_level = Some 2, pos_left = 5, pos_span = Some 2\<rparr>,
        st_insertedOutsideEvent := True,
        cuid_next := 1\<rparr>"

section \<open>Duration and start of a moved event\<close>

lemma startOfDay_mult: "startOfDay d = msPerDay * (d div msPerDay)"
  by (simp add: startOfDay_def minus_mod_eq_mult_div)

lemma merge_day: "startOfDay (helpers_merge d t) = startOfDay d"
  by (simp add: startOfDay_mult helpers_merge_def timeOfDay_def msPerDay_def)

lemma merge_time: "timeOfDay (helpers_merge d t) = timeOfDay t"
  by (simp add: startOfDay_mult helpers_merge_def timeOfDay_def)

text \<open>
  C1. An event that starts at \<open>T0\<close> and ends at \<open>T0 + D\<close> keeps its duration \<open>D\<close> when it
  is dropped on any instant \<open>T1\<close>, whether the target is a day cell or a time slot: the
  end that \<open>getEventTimes\<close> returns minus the start it returns is exactly \<open>D\<close>.
\<close>

theorem getEventTimes_duration:
  "nextEnd (getEventTimes T0 (T0 + D) T1 type') - nextStart (getEventTimes T0 (T0 + D) T1 type') = D"
  by (simp add: getEventTimes_def dates_diff_def addMilliseconds_def Let_def)

text \<open>
  An event from 09:30 to 10:30 on 2024-03-01, dropped on the day cell of 2024-03-10 and on
  the 01:30 slot of that day: one hour in both cases.
\<close>

theorem getEventTimes_duration_witness:
  "nextEnd (getEventTimes 1709285400000 (1709285400000 + 3600000) 1710028800000 ''dateCellWrapper'')
     - nextStart (getEventTimes 1709285400000 (1709285400000 + 3600000) 1710028800000 ''dateCellWrapper'')
     = 3600000
   \<and> nextEnd (getEventTimes 1709285400000 (1709285400000 + 3600000) 1710034200000 ''dayWrapper'')
     - nextStart (getEventTimes 1709285400000 (1709285400000 + 3600000) 1710034200000 ''dayWrapper'')
     = 3600000"
  using getEventTimes_duration [of 1709285400000 3600000 1710028800000 "''dateCellWrapper''"]
    getEventTimes_duration [of 1709285400000 3600000 1710034200000 "''dayWrapper''"]
  by simp

text \<open>
  C8. On a whole-day cell (\<open>dateCellWrapper\<close>) the new start is the merge of the dropped
  date with the original start: it lies on the day of the dropped date and has the time of
  day of the original start. On any other target the new start is the dropped instant
  itself. In both cases the new end is the new start plus the original duration.
\<close>

theorem getEventTimes_start_end:
  "nextStart (getEventTimes start end' dropDate type') =
     (if type' = ''dateCellWrapper'' then helpers_merge dropDate start else dropDate)
   \<and> (if type' = ''dateCellWrapper''
      then startOfDay (nextStart (getEventTimes start end' dropDate type')) = startOfDay dropDate
         \<and> timeOfDay (nextStart (getEventTimes start end' dropDate type')) = timeOfDay start
      else nextStart (getEventTimes start end' dropDate type') = dropDate)
   \<and> nextEnd (getEventTimes start end' dropDate type') =
       nextStart (getEventTimes start end' dropDate type') + (end' - start)"
  by (simp add: getEventTimes_def dates_diff_def addMilliseconds_def Let_def merge_day merge_time)

text \<open>
  The event of 09:30 to 10:30 on 2024-03-01 lands on 09:30 to 10:30 of 2024-03-10 when
  dropped on that day's cell, and on 01:30 to 02:30 when dropped on the 01:30 slot.
\<close>

theorem getEventTimes_start_end_witness:
  "nextStart (getEventTimes 1709285400000 1709289000000 1710028800000 ''dateCellWrapper'') =
     1710063000000
   \<and> nextEnd (getEventTimes 1709285400000 1709289000000 1710028800000 ''dateCellWrapper'') =
     1710066600000
   \<and> nextStart (getEventTimes 1709285400000 1709289000000 1710034200000 ''dayWrapper'') =
     1710034200000
   \<and> nextEnd (getEventTimes 1709285400000 1709289000000 1710034200000 ''dayWrapper'') =
     1710037800000"
  using getEventTimes_start_end [of 1709285400000 1709289000000 1710028800000 "''dateCellWrapper''"]
    getEventTimes_start_end [of 1709285400000 1709289000000 1710034200000 "''dayWrapper''"]
  by (simp add: helpers_merge_def startOfDay_def timeOfDay_def msPerDay_def)

section \<open>Hovering a segment\<close>

lemma findIndex_range: "findIndex p xs = - 1 \<or> 0 \<le> findIndex p xs"
  by (induction xs) (auto simp add: Let_def)

lemma findIndex_found: "findIndex p xs = int n \<Longrightarrow> n < length xs \<and> p (xs ! n)"
proof (induction xs arbitrary: n)
  case Nil
  then show ?case by simp
next
  case (Cons x xs)
  show ?case
  proof (cases "p x")
    case True
    with Cons.prems show ?thesis by simp
  next
    case False
    with Cons.prems have ne: "findIndex p xs \<noteq> - 1" and eq: "findIndex p xs + 1 = int n"
      by (auto simp add: Let_def split: if_splits)
    from ne findIndex_range [of p xs] have "0 \<le> findIndex p xs" by simp
    with eq obtain m where m: "findIndex p xs = int m" "n = Suc m"
      by (metis add.commute nat_0_le of_nat_Suc of_nat_eq_iff)
    from Cons.IH [OF m(1)] m(2) show ?thesis by simp
  qed
qed

lemma cellSeg_found:
  "findIndex (propEq_left dleft) segs = int n \<Longrightarrow>
   cellSeg dleft segs = (int n, (segs ! n)\<lparr>seg_isHidden := Some False\<rparr>)"
  by (simp add: cellSeg_def Let_def)

lemma writeBack_nth:
  "i < length levels \<Longrightarrow>
   writeBack cellSegs levels ! i =
     (case cellSegs ! i of
        (idx, seg) \<Rightarrow>
          if idx = - 1 then levels ! i
          else (levels ! i)[nat idx := seg\<lparr>seg_level := Some (int i)\<rparr>])"
  by (cases "cellSegs ! i") (simp add: writeBack_def)

lemma length_writeBack: "length (writeBack cellSegs levels) = length levels"
  by (simp add: writeBack_def)

text \<open>The spec's scenario: the drag at level 0, column 3 hovers level 1, column 5.\<close>

lemma sample_hover:
  "handleSegmentHover sampleEnv (samplePos 1 5) (Some (sampleEvent ''C'' 3))
     (sampleItem ''event'') sampleWorld = Inr hoveredWorld"
  by (simp add: handleSegmentHover_def sampleWorld_def sampleItem_def posEq_def samplePos_def
      swapSegments_def sampleLevels_def arrayIndex_def cellSeg_def propEq_left_def sampleSeg_def
      Let_def writeBack_def hoveredWorld_def upt_rec)

text \<open>
  C2, as the code has it. A hover whose position differs from the tracked drag position
  works on the drag's column only. With a segment at that column in the drag's row (index
  \<open>dx\<close>) and in the hover's row (index \<open>hx\<close>), the handler puts the dragged segment into
  the hover's row, marked \<open>isHidden\<close>, and, when the two rows differ, the segment it
  replaces into the drag's row, not hidden; each gets the level of its new row. Of the
  tracked drag position only the level changes, to the hover's level: its left stays the
  drag's left. The hover and its data are recorded in the state.
\<close>

theorem handleSegmentHover_swap:
  assumes outside: "st_insertedOutsideEvent w \<or> item_type dragEvent \<noteq> ''outsideEvent''"
      and drag: "RBC_DRAG_POS w = Some drag"
      and differs: "\<not> posEq drag hover"
      and dlevel: "pos_level drag = Some (int di)" "di < length (st_levels w)"
      and hlevel: "pos_level hover = Some (int hi)" "hi < length (st_levels w)"
      and didx: "findIndex (propEq_left (pos_left drag)) (st_levels w ! di) = int dx"
      and hidx: "findIndex (propEq_left (pos_left drag)) (st_levels w ! hi) = int hx"
  shows "\<exists>w'. handleSegmentHover env hover hoverData dragEvent w = Inr w'
           \<and> RBC_DRAG_POS w' = Some (drag\<lparr>pos_level := pos_level hover\<rparr>)
           \<and> st_hover w' = Some hover \<and> st_hoverData w' = hoverData
           \<and> length (st_levels w') = length (st_levels w)
           \<and> seg_left (st_levels w ! hi ! hx) = Some (pos_left drag)
           \<and> st_levels w' ! hi ! hx =
               (st_levels w ! di ! dx)\<lparr>seg_isHidden := Some True, seg_level := Some (int hi)\<rparr>
           \<and> (hi \<noteq> di \<longrightarrow>
                st_levels w' ! di ! dx =
                  (st_levels w ! hi ! hx)\<lparr>seg_isHidden := Some False, seg_level := Some (int di)\<rparr>)"
proof -
  let ?levels = "st_levels w"
  let ?cs = "map (cellSeg (pos_left drag)) ?levels"
  let ?dseg = "(?levels ! di ! dx)\<lparr>seg_isHidden := Some False\<rparr>"
  let ?hseg = "(?levels ! hi ! hx)\<lparr>seg_isHidden := Some False\<rparr>"
  let ?cs2 = "?cs[di := (int dx, ?hseg),
                  hi := (int hx, ?dseg\<lparr>seg_isHidden := Some True, seg_level := Some (int hi)\<rparr>)]"
  let ?w' = "w\<lparr>st_levels := writeBack ?cs2 ?levels,
               RBC_DRAG_POS := Some (drag\<lparr>pos_level := Some (int hi)\<rparr>),
               st_hover := Some hover, st_hoverData := hoverData\<rparr>"
  from findIndex_found [OF didx] have dx: "dx < length (?levels ! di)" by simp
  from findIndex_found [OF hidx]
  have hx: "hx < length (?levels ! hi)"
    and hleft: "seg_left (?levels ! hi ! hx) = Some (pos_left drag)"
    by (simp_all add: propEq_left_def)
  have cd: "?cs ! di = (int dx, ?dseg)"
    using dlevel(2) cellSeg_found [OF didx] by simp
  have ch: "?cs ! hi = (int hx, ?hseg)"
    using hlevel(2) cellSeg_found [OF hidx] by simp
  have run: "handleSegmentHover env hover hoverData dragEvent w = Inr ?w'"
    using outside drag differs dlevel hlevel cd ch
    by (auto simp add: handleSegmentHover_def swapSegments_def arrayIndex_def Let_def)
  have at_h: "writeBack ?cs2 ?levels ! hi ! hx =
      (?levels ! di ! dx)\<lparr>seg_isHidden := Some True, seg_level := Some (int hi)\<rparr>"
    using hlevel(2) hx by (simp add: writeBack_nth)
  have at_d: "writeBack ?cs2 ?levels ! di ! dx =
      (?levels ! hi ! hx)\<lparr>seg_isHidden := Some False, seg_level := Some (int di)\<rparr>"
    if "hi \<noteq> di"
    using that dlevel(2) dx by (simp add: writeBack_nth)
  show ?thesis
    using run at_h at_d hleft hlevel(1) by (simp add: length_writeBack)
qed

theorem handleSegmentHover_swap_witness:
  "handleSegmentHover sampleEnv (samplePos 1 5) (Some (sampleEvent ''C'' 3)) (sampleItem ''event'')
     sampleWorld = Inr hoveredWorld
   \<and> RBC_DRAG_POS hoveredWorld = Some (samplePos 1 3)
   \<and> st_levels hoveredWorld ! 1 ! 0 =
       (sampleSeg (sampleEvent ''A'' 1) 3 0)\<lparr>seg_isHidden := Some True, seg_level := Some 1\<rparr>
   \<and> st_levels hoveredWorld ! 0 ! 0 =
       (sampleSeg (sampleEvent ''B'' 2) 3 1)\<lparr>seg_isHidden := Some False, seg_level := Some 0\<rparr>"
proof -
  have h1: "st_insertedOutsideEvent sampleWorld \<or> item_type (sampleItem ''event'') \<noteq> ''outsideEvent''"
    and h2: "RBC_DRAG_POS sampleWorld = Some (samplePos 0 3)"
    and h3: "\<not> posEq (samplePos 0 3) (samplePos 1 5)"
    and h4: "pos_level (samplePos 0 3) = Some (int 0)" "0 < length (st_levels sampleWorld)"
    and h5: "pos_level (samplePos 1 5) = Some (int 1)" "1 < length (st_levels sampleWorld)"
    and h6: "findIndex (propEq_left (pos_left (samplePos 0 3))) (st_levels sampleWorld ! 0) = int 0"
    and h7: "findIndex (propEq_left (pos_left (samplePos 0 3))) (st_levels sampleWorld ! 1) = int 0"
    by (simp_all add: sampleWorld_def sampleItem_def samplePos_def posEq_def sampleLevels_def
        propEq_left_def sampleSeg_def)
  from handleSegmentHover_swap [OF h1 h2 h3 h4 h5 h6 h7, of sampleEnv "Some (sampleEvent ''C'' 3)"]
  obtain w' where w': "handleSegmentHover sampleEnv (samplePos 1 5) (Some (sampleEvent ''C'' 3))
        (sampleItem ''event'') sampleWorld = Inr w'"
      "RBC_DRAG_POS w' = Some ((samplePos 0 3)\<lparr>pos_level := pos_level (samplePos 1 5)\<rparr>)"
      "st_levels w' ! 1 ! 0 =
         (st_levels sampleWorld ! 0 ! 0)\<lparr>seg_isHidden := Some True, seg_level := Some (int 1)\<rparr>"
      "st_levels w' ! 0 ! 0 =
         (st_levels sampleWorld ! 1 ! 0)\<lparr>seg_isHidden := Some False, seg_level := Some (int 0)\<rparr>"
    by auto
  have "w' = hoveredWorld"
    using w'(1) by (simp add: sample_hover)
  with w' show ?thesis
    by (simp add: sampleWorld_def sampleLevels_def samplePos_def)
qed

text \<open>
  C2 as the claim states it fails in the spec's own scenario: after the drag at level 0,
  column 3 hovers level 1, column 5, the tracked drag position is level 1, column 3, which
  is not the hover position, and the segment at the hover position (row 1, index 1) is
  the one that was there before.
\<close>

theorem drag_left_not_hover_left_counterexample:
  "map_sum id RBC_DRAG_POS
     (handleSegmentHover sampleEnv (samplePos 1 5) (Some (sampleEvent ''C'' 3)) (sampleItem ''event'')
        sampleWorld) = Inr (Some (samplePos 1 3))
   \<and> samplePos 1 3 \<noteq> samplePos 1 5
   \<and> map_sum id (\<lambda>w. st_levels w ! 1 ! 1)
     (handleSegmentHover sampleEnv (samplePos 1 5) (Some (sampleEvent ''C'' 3)) (sampleItem ''event'')
        sampleWorld) = Inr (sampleLevels ! 1 ! 1)"
  unfolding sample_hover
  by (simp add: hoveredWorld_def sampleWorld_def samplePos_def sampleLevels_def)

lemma hover_result_inserted:
  "handleSegmentHover env hover hoverData dragEvent w = Inr w1 \<Longrightarrow>
   st_insertedOutsideEvent w1 \<or> item_type dragEvent \<noteq> ''outsideEvent''"
  by (auto simp add: handleSegmentHover_def insertOutsideEvent_def swapSegments_def Let_def
      split: if_splits option.splits prod.splits)

lemma hover_at_drag_position:
  "st_insertedOutsideEvent w \<or> item_type dragEvent \<noteq> ''outsideEvent'' \<Longrightarrow>
   RBC_DRAG_POS w = Some drag \<Longrightarrow> posEq drag hover \<Longrightarrow>
   handleSegmentHover env hover hoverData dragEvent w = Inr w"
  by (auto simp add: handleSegmentHover_def)

text \<open>
  C3, as the code has it. Hovering the same position twice in a row changes nothing the
  second time when the hover lies in the column of the tracked drag position and no
  outside insert is pending: whatever the first call did, it leaves the tracked drag
  position equal to the hover, so the second call returns at \<open>_posEq\<close> with the world as
  it found it. Levels, state, window cells and the calls made to the host are unchanged.
\<close>

theorem hover_twice_same_column:
  assumes "st_insertedOutsideEvent w \<or> item_type dragEvent \<noteq> ''outsideEvent''"
      and "RBC_DRAG_POS w = Some drag"
      and "pos_left hover = pos_left drag"
      and "handleSegmentHover env hover hoverData dragEvent w = Inr w1"
  shows "RBC_DRAG_POS w1 = Some (drag\<lparr>pos_level := pos_level hover\<rparr>)
       \<and> posEq (drag\<lparr>pos_level := pos_level hover\<rparr>) hover
       \<and> handleSegmentHover env hover hoverData dragEvent w1 = Inr w1"
proof -
  have cell: "RBC_DRAG_POS w1 = Some (drag\<lparr>pos_level := pos_level hover\<rparr>)"
  proof (cases "posEq drag hover")
    case True
    then have "drag\<lparr>pos_level := pos_level hover\<rparr> = drag"
      by (simp add: posEq_def)
    moreover from True assms have "w1 = w"
      by (auto simp add: handleSegmentHover_def)
    ultimately show ?thesis using assms(2) by simp
  next
    case False
    with assms show ?thesis
      by (auto simp add: handleSegmentHover_def swapSegments_def Let_def
          split: option.splits prod.splits)
  qed
  have eq: "posEq (drag\<lparr>pos_level := pos_level hover\<rparr>) hover"
    using assms(3) by (simp add: posEq_def)
  from hover_result_inserted [OF assms(4)] cell eq
  have "handleSegmentHover env hover hoverData dragEvent w1 = Inr w1"
    by (rule hover_at_drag_position)
  with cell eq show ?thesis by simp
qed

theorem hover_twice_same_column_witness:
  "handleSegmentHover sampleEnv (samplePos 1 3) (Some (sampleEvent ''C'' 3)) (sampleItem ''event'')
     sampleWorld = Inr sameColumnWorld
   \<and> RBC_DRAG_POS sameColumnWorld = Some (samplePos 1 3)
   \<and> handleSegmentHover sampleEnv (samplePos 1 3) (Some (sampleEvent ''C'' 3)) (sampleItem ''event'')
     sameColumnWorld = Inr sameColumnWorld"
proof -
  have h1: "st_insertedOutsideEvent sampleWorld \<or> item_type (sampleItem ''event'') \<noteq> ''outsideEvent''"
    and h2: "RBC_DRAG_POS sampleWorld = Some (samplePos 0 3)"
    and h3: "pos_left (samplePos 1 3) = pos_left (samplePos 0 3)"
    by (simp_all add: sampleWorld_def sampleItem_def samplePos_def)
  have h4: "handleSegmentHover sampleEnv (samplePos 1 3) (Some (sampleEvent ''C'' 3))
      (sampleItem ''event'') sampleWorld = Inr sameColumnWorld"
    by (simp add: handleSegmentHover_def sampleWorld_def sampleItem_def posEq_def samplePos_def
      swapSegments_def sampleLevels_def arrayIndex_def cellSeg_def propEq_left_def sampleSeg_def
      Let_def writeBack_def hoveredWorld_def sameColumnWorld_def upt_rec)
  from hover_twice_same_column [OF h1 h2 h3 h4] h4 show ?thesis
    by (simp add: samplePos_def)
qed

text \<open>
  C3 as the claim states it fails. In the spec's scenario the first hover of level 1,
  column 5 leaves the tracked drag position at level 1, column 3, which is not the hover
  position, so the same hover again does not return at \<open>_posEq\<close>. And for a drag that comes
  from outside, the first hover of level 1, column 5 inserts the new event, and the same
  hover again swaps the segments of rows 0 and 1: the levels, the hover state and the
  window's drag position all change.
\<close>

theorem hover_twice_counterexample:
  "handleSegmentHover sampleEnv (samplePos 1 5) (Some (sampleEvent ''C'' 3)) (sampleItem ''event'')
     sampleWorld = Inr hoveredWorld
   \<and> RBC_DRAG_POS hoveredWorld = Some (samplePos 1 3)
   \<and> \<not> posEq (samplePos 1 3) (samplePos 1 5)
   \<and> handleSegmentHover sampleEnv (samplePos 1 5) (Some (sampleEvent ''C'' 3))
       (sampleItem ''outsideEvent'') sampleWorld = Inr insertedWorld
   \<and> handleSegmentHover sampleEnv (samplePos 1 5) (Some (sampleEvent ''C'' 3))
       (sampleItem ''outsideEvent'') insertedWorld = Inr rehoveredWorld
   \<and> st_levels rehoveredWorld \<noteq> st_levels insertedWorld
   \<and> st_hover rehoveredWorld \<noteq> st_hover insertedWorld"
proof -
  have "handleSegmentHover sampleEnv (samplePos 1 5) (Some (sampleEvent ''C'' 3))
       (sampleItem ''outsideEvent'') sampleWorld = Inr insertedWorld"
    by (simp add: handleSegmentHover_def insertOutsideEvent_def sampleWorld_def sampleItem_def
        sampleEnv_def insertionSort_def weightCmp_def sampleEvent_def insertedWorld_def
        insertedEvent_def sampleSeg_def samplePos_def addDays_def msPerDay_def Let_def)
  moreover have "handleSegmentHover sampleEnv (samplePos 1 5) (Some (sampleEvent ''C'' 3))
       (sampleItem ''outsideEvent'') insertedWorld = Inr rehoveredWorld"
    by (simp add: handleSegmentHover_def insertedWorld_def sampleWorld_def sampleItem_def posEq_def
        samplePos_def swapSegments_def arrayIndex_def cellSeg_def propEq_left_def sampleSeg_def
        Let_def writeBack_def rehoveredWorld_def upt_rec)
  moreover have "RBC_DRAG_POS hoveredWorld = Some (samplePos 1 3)"
    and "\<not> posEq (samplePos 1 3) (samplePos 1 5)"
    and "st_levels rehoveredWorld \<noteq> st_levels insertedWorld"
    and "st_hover rehoveredWorld \<noteq> st_hover insertedWorld"
    by (simp_all add: hoveredWorld_def posEq_def samplePos_def rehoveredWorld_def
        insertedWorld_def sampleWorld_def sampleSeg_def)
  ultimately show ?thesis
    by (simp add: sample_hover)
qed

section \<open>Inserting an event dragged in from outside\<close>






section \<open>Dropping a segment\<close>

lemma sample_drop: "handleSegmentDrop sampleEnv (samplePos 1 5) hoveredWorld = Inr droppedWorld"
  by (simp add: handleSegmentDrop_def hoveredWorld_def sampleWorld_def samplePos_def
      arrayIndex_def sampleSeg_def columnEvents_def sampleEnv_def droppedWorld_def Let_def)

text \<open>
  C4, at a drop with no hover recorded: the handler returns at once. No call is made,
  and nothing is cleared either: the window's drag position is still the one the
  drag-start stored.
\<close>

theorem drop_without_hover_keeps_drag:
  "handleSegmentDrop sampleEnv (samplePos 1 5) sampleWorld = Inr sampleWorld
   \<and> st_hoverData sampleWorld = None
   \<and> RBC_DRAG_POS sampleWorld = Some (samplePos 0 3)"
  by (simp add: handleSegmentDrop_def sampleWorld_def)

lemma columnEvents_foldl:
  "foldl (\<lambda>acc row. case find p row of Some seg \<Rightarrow> acc @ [seg_event seg] | None \<Rightarrow> acc) acc levels =
   acc @ concat (map (\<lambda>row. case find p row of Some seg \<Rightarrow> [seg_event seg] | None \<Rightarrow> []) levels)"
  by (induction levels arbitrary: acc) (auto split: option.splits)

lemma find_None_iff_Ball: "(find p xs = None) = (\<forall>x\<in>set xs. \<not> p x)"
  by (induction xs) auto

lemma length_columnEvents:
  "length (columnEvents dleft levels) =
   length (filter (\<lambda>row. \<exists>seg\<in>set row. seg_left seg = Some dleft) levels)"
proof -
  have "length (concat (map (\<lambda>row. case find p row of Some seg \<Rightarrow> [seg_event seg] | None \<Rightarrow> [])
                         levels)) =
        length (filter (\<lambda>row. \<exists>seg\<in>set row. p seg) levels)" for p :: "'a segment \<Rightarrow> bool"
  proof (induction levels)
    case Nil
    show ?case by simp
  next
    case (Cons row rows)
    show ?case
    proof (cases "find p row")
      case None
      then have "\<not> (\<exists>seg\<in>set row. p seg)" by (simp add: find_None_iff_Ball)
      with None Cons show ?thesis by simp
    next
      case (Some seg)
      then have "\<exists>seg\<in>set row. p seg"
        using find_None_iff_Ball [of p row] by auto
      with Some Cons show ?thesis by simp
    qed
  qed
  then show ?thesis
    by (simp add: columnEvents_def columnEvents_foldl)
qed

text \<open>
  C6, as the code has it. On a drop with hover data recorded, a segment at the tracked
  drag position and the reorder handler supplied, \<open>handleSegmentDrop\<close> calls the handler
  exactly once, with the event of that segment, the hover data, the level of the tracked
  drag position as it is at the drop (the level the last hover moved it to, not the level
  the drag began at), the level of the drop target, and the events of the segments found
  at the drag's column, one per row that has one, in row order. It then clears the
  window's drag position, the hover and the hover data.
\<close>

theorem handleSegmentDrop_reorder:
  assumes "st_hoverData w = Some hoverData"
      and "RBC_DRAG_POS w = Some drag"
      and "pos_level drag = Some (int l)"
      and "l < length (st_levels w)"
      and "find (\<lambda>seg. seg_left seg = Some (pos_left drag)) (st_levels w ! l) = Some dragSeg"
      and "ctx_onEventReorder env"
  shows "handleSegmentDrop env dropPos w =
           Inr (w\<lparr>calls := calls w @
                      [OnEventReorder (seg_event dragSeg) hoverData (pos_level drag)
                         (pos_level dropPos) (columnEvents (pos_left drag) (st_levels w))],
                  RBC_DRAG_POS := None, st_hover := None, st_hoverData := None\<rparr>)
       \<and> length (columnEvents (pos_left drag) (st_levels w)) =
           length (filter (\<lambda>row. \<exists>seg\<in>set row. seg_left seg = Some (pos_left drag)) (st_levels w))"
  using assms
  by (simp add: handleSegmentDrop_def arrayIndex_def Let_def length_columnEvents)

theorem handleSegmentDrop_reorder_witness:
  "handleSegmentDrop sampleEnv (samplePos 1 5) hoveredWorld = Inr droppedWorld
   \<and> length (columnEvents 3 (st_levels hoveredWorld)) = 2"
proof -
  have h1: "st_hoverData hoveredWorld = Some (sampleEvent ''C'' 3)"
    and h2: "RBC_DRAG_POS hoveredWorld = Some (samplePos 1 3)"
    and h3: "pos_level (samplePos 1 3) = Some (int 1)"
    and h4: "1 < length (st_levels hoveredWorld)"
    and h5: "find (\<lambda>seg. seg_left seg = Some (pos_left (samplePos 1 3))) (st_levels hoveredWorld ! 1) =
               Some ((sampleSeg (sampleEvent ''A'' 1) 3 1)\<lparr>seg_isHidden := Some True\<rparr>)"
    and h6: "ctx_onEventReorder sampleEnv"
    by (simp_all add: hoveredWorld_def samplePos_def sampleSeg_def sampleEnv_def)
  show ?thesis
    using handleSegmentDrop_reorder [OF h1 h2 h3 h4 h5 h6, of "samplePos 1 5"]
    by (simp add: droppedWorld_def hoveredWorld_def sampleWorld_def samplePos_def sampleSeg_def
        columnEvents_def)
qed

text \<open>
  C6 as the claim states it fails in the spec's own scenario. The drag starts at level
  0, column 3, hovers level 1, column 5 and is dropped there: the handler is called once,
  and the level it is given as the origin is 1, not 0.
\<close>

theorem reorder_origin_level_counterexample:
  "handleSegmentDrag (Some (samplePos 0 3)) (sampleWorld\<lparr>RBC_DRAG_POS := None\<rparr>) = sampleWorld
   \<and> handleSegmentHover sampleEnv (samplePos 1 5) (Some (sampleEvent ''C'' 3))
       (sampleItem ''event'') sampleWorld = Inr hoveredWorld
   \<and> map_sum id calls (handleSegmentDrop sampleEnv (samplePos 1 5) hoveredWorld) =
       Inr [OnEventReorder (Some (sampleEvent ''A'' 1)) (sampleEvent ''C'' 3) (Some 1) (Some 1)
              [Some (sampleEvent ''B'' 2), Some (sampleEvent ''A'' 1)]]"
proof -
  have "handleSegmentDrag (Some (samplePos 0 3)) (sampleWorld\<lparr>RBC_DRAG_POS := None\<rparr>) = sampleWorld"
    by (simp add: handleSegmentDrag_def sampleWorld_def)
  moreover have "calls droppedWorld =
      [OnEventReorder (Some (sampleEvent ''A'' 1)) (sampleEvent ''C'' 3) (Some 1) (Some 1)
         [Some (sampleEvent ''B'' 2), Some (sampleEvent ''A'' 1)]]"
    by (simp add: droppedWorld_def)
  ultimately show ?thesis
    by (simp add: sample_hover sample_drop)
qed

section \<open>Leaving a cell\<close>

text \<open>
  C9, as the code has it. The hover-exit handler changes nothing: it computes the levels
  of the props and drops them. The hover, the hover data, the levels and the tracked drag
  position are all what they were, also when the drop target calls the handler because the
  pointer has left its cell.
\<close>

theorem hoverExit_changes_nothing:
  "handleBackgroundCellHoverExit env w = w
   \<and> componentWillReceiveProps env value monitorItem True False w = w"
  by (simp add: handleBackgroundCellHoverExit_def componentWillReceiveProps_def Let_def)

theorem hoverExit_changes_nothing_witness:
  "handleBackgroundCellHoverExit sampleEnv hoveredWorld = hoveredWorld
   \<and> componentWillReceiveProps sampleEnv 1000 None True False hoveredWorld = hoveredWorld"
  using hoverExit_changes_nothing [of sampleEnv hoveredWorld 1000 None] by simp

text \<open>
  C9 as the claim states it fails: with a hover recorded, the hover and the hover data
  are still there after the pointer has left the cell.
\<close>

theorem hoverExit_keeps_hover_counterexample:
  "st_hover (componentWillReceiveProps sampleEnv 1000 None True False hoveredWorld) =
     Some (samplePos 1 5)
   \<and> st_hoverData (handleBackgroundCellHoverExit sampleEnv hoveredWorld) \<noteq> None"
  by (simp add: handleBackgroundCellHoverExit_def componentWillReceiveProps_def Let_def
      hoveredWorld_def)

section \<open>The hover of the drop target\<close>

lemma hover_sets_value:
  "\<exists>v. RBC_RESIZE_VALUE (snd (dropTarget_hover env type' value itemType monitorItem w)) = Some v
       \<and> toString env v = toString env value"
  by (cases "RBC_RESIZE_VALUE w") (simp_all add: dropTarget_hover_def invoke_def Let_def)

lemma bw_hover_sets_value:
  "\<exists>v. RBC_RESIZE_VALUE (bw_dropTarget_hover env value itemType monitorItem w) = Some v
       \<and> toString env v = toString env value"
  by (cases "RBC_RESIZE_VALUE w") (simp_all add: bw_dropTarget_hover_def invoke_def Let_def)

lemma hover_throttled:
  "RBC_RESIZE_VALUE w = Some v \<Longrightarrow> toString env v = toString env value \<Longrightarrow>
   dropTarget_hover env type' value itemType monitorItem w = (None, w)"
  by (simp add: dropTarget_hover_def)

lemma bw_hover_throttled:
  "RBC_RESIZE_VALUE w = Some v \<Longrightarrow> toString env v = toString env value \<Longrightarrow>
   bw_dropTarget_hover env value itemType monitorItem w = w"
  by (simp add: bw_dropTarget_hover_def)

text \<open>
  C10. The hover of the drop target is throttled through the one cell
  \<open>window.RBC_RESIZE_VALUE\<close>: of two consecutive hovers whose values print the same, the
  second returns normally with the world as the first left it, so it makes no call,
  whatever the wrappers, the item types and the items of the two hovers are, and also
  when the first hover ended in an exception. This holds for both revisions of the file.
\<close>

theorem hover_throttle:
  assumes "toString env value2 = toString env value1"
  shows "dropTarget_hover env type2 value2 itemType2 item2
           (snd (dropTarget_hover env type1 value1 itemType1 item1 w)) =
         (None, snd (dropTarget_hover env type1 value1 itemType1 item1 w))
       \<and> bw_dropTarget_hover env value2 itemType2 item2
           (bw_dropTarget_hover env value1 itemType1 item1 w) =
         bw_dropTarget_hover env value1 itemType1 item1 w"
proof
  obtain v where "RBC_RESIZE_VALUE (snd (dropTarget_hover env type1 value1 itemType1 item1 w)) = Some v"
    and "toString env v = toString env value1"
    using hover_sets_value by blast
  then show "dropTarget_hover env type2 value2 itemType2 item2
           (snd (dropTarget_hover env type1 value1 itemType1 item1 w)) =
         (None, snd (dropTarget_hover env type1 value1 itemType1 item1 w))"
    using assms by (simp add: hover_throttled)
next
  obtain v where "RBC_RESIZE_VALUE (bw_dropTarget_hover env value1 itemType1 item1 w) = Some v"
    and "toString env v = toString env value1"
    using bw_hover_sets_value by blast
  then show "bw_dropTarget_hover env value2 itemType2 item2
           (bw_dropTarget_hover env value1 itemType1 item1 w) =
         bw_dropTarget_hover env value1 itemType1 item1 w"
    using assms by (simp add: bw_hover_throttled)
qed

text \<open>
  A resize hover on a day cell at 1.0 s, then the hover of a moved event on a time slot at
  1.5 s: the second makes no call and throws nothing. The other way round, the hover of
  the moved event throws after writing the cell, and the resize hover that follows is
  throttled all the same: no call has been made at all.
\<close>

theorem hover_throttle_witness:
  "toString sampleEnv 1500 = toString sampleEnv 1000
   \<and> dropTarget_hover sampleEnv ''dateCellWrapper'' 1000 ''resize'' (sampleItem ''resizeL'')
       sampleWorld =
     (None, sampleWorld\<lparr>RBC_RESIZE_VALUE := Some 1000,
                         calls := [OnEventResize ''hover'' (sampleEvent ''A'' 1) 1000 1709337600000]\<rparr>)
   \<and> dropTarget_hover sampleEnv ''dayWrapper'' 1500 ''event'' (sampleItem ''event'')
       (sampleWorld\<lparr>RBC_RESIZE_VALUE := Some 1000,
                     calls := [OnEventResize ''hover'' (sampleEvent ''A'' 1) 1000 1709337600000]\<rparr>) =
     (None, sampleWorld\<lparr>RBC_RESIZE_VALUE := Some 1000,
                         calls := [OnEventResize ''hover'' (sampleEvent ''A'' 1) 1000 1709337600000]\<rparr>)
   \<and> dropTarget_hover sampleEnv ''dayWrapper'' 1000 ''event'' (sampleItem ''event'') sampleWorld =
     (Some ReferenceError, sampleWorld\<lparr>RBC_RESIZE_VALUE := Some 1000\<rparr>)
   \<and> dropTarget_hover sampleEnv ''dateCellWrapper'' 1500 ''resize'' (sampleItem ''resizeL'')
       (sampleWorld\<lparr>RBC_RESIZE_VALUE := Some 1000\<rparr>) =
     (None, sampleWorld\<lparr>RBC_RESIZE_VALUE := Some 1000\<rparr>)"
proof -
  have h: "toString sampleEnv 1500 = toString sampleEnv 1000"
    by (simp add: sampleEnv_def sampleToString_def)
  have first: "dropTarget_hover sampleEnv ''dateCellWrapper'' 1000 ''resize'' (sampleItem ''resizeL'')
       sampleWorld =
     (None, sampleWorld\<lparr>RBC_RESIZE_VALUE := Some 1000,
                         calls := [OnEventResize ''hover'' (sampleEvent ''A'' 1) 1000 1709337600000]\<rparr>)"
    by (simp add: dropTarget_hover_def sampleWorld_def sampleItem_def ItemTypes_RESIZE_def
        invoke_def sampleEvent_def Let_def)
  have thrown: "dropTarget_hover sampleEnv ''dayWrapper'' 1000 ''event'' (sampleItem ''event'')
       sampleWorld = (Some ReferenceError, sampleWorld\<lparr>RBC_RESIZE_VALUE := Some 1000\<rparr>)"
    by (simp add: dropTarget_hover_def sampleWorld_def sampleItem_def ItemTypes_RESIZE_def
        ItemTypes_EVENT_def Let_def)
  from hover_throttle [OF h, of "''dayWrapper''" "''event''" "sampleItem ''event''"
      "''dateCellWrapper''" "''resize''" "sampleItem ''resizeL''" sampleWorld]
  have a: "dropTarget_hover sampleEnv ''dayWrapper'' 1500 ''event'' (sampleItem ''event'')
       (sampleWorld\<lparr>RBC_RESIZE_VALUE := Some 1000,
                     calls := [OnEventResize ''hover'' (sampleEvent ''A'' 1) 1000 1709337600000]\<rparr>) =
     (None, sampleWorld\<lparr>RBC_RESIZE_VALUE := Some 1000,
                         calls := [OnEventResize ''hover'' (sampleEvent ''A'' 1) 1000 1709337600000]\<rparr>)"
    unfolding first by simp
  from hover_throttle [OF h, of "''dateCellWrapper''" "''resize''" "sampleItem ''resizeL''"
      "''dayWrapper''" "''event''" "sampleItem ''event''" sampleWorld]
  have b: "dropTarget_hover sampleEnv ''dateCellWrapper'' 1500 ''resize'' (sampleItem ''resizeL'')
       (sampleWorld\<lparr>RBC_RESIZE_VALUE := Some 1000\<rparr>) =
     (None, sampleWorld\<lparr>RBC_RESIZE_VALUE := Some 1000\<rparr>)"
    unfolding thrown by simp
  from h first thrown a b show ?thesis by blast
qed

text \<open>
  The copy \<open>src/addons/dragAndDrop/backgroundWrapper.js\<close> reports a resize hover that is
  not throttled with the phase of a drop.
\<close>

lemma bw_resize_hover_phase:
  assumes "RBC_RESIZE_VALUE w = None"
  shows "calls (bw_dropTarget_hover env value ItemTypes_RESIZE
                  \<lparr>item_type = ''resizeR'', item_data = e, item_position = sp\<rparr> w) =
         calls w @ [OnEventResize ''drop'' e (ev_start e) value]"
  using assms by (simp add: bw_dropTarget_hover_def invoke_def Let_def)

text \<open>
  C7, as the code has it, for both copies of the file. During a resize drag (item type
  \<open>resize\<close>, the item being \<open>resizeL\<close> or \<open>resizeR\<close>) a hover tick whose value prints as
  the recorded one does nothing. Any other hover tick records the value and calls
  \<open>onEventResize\<close> exactly once, the value being the proposed start of a left-edge resize
  or the proposed end of a right-edge one; the levels are untouched. In the later revision
  (\<open>dropTarget_hover\<close>) that call has the phase \<open>hover\<close>; for the copy
  \<open>backgroundWrapper.js\<close> (\<open>bw_dropTarget_hover\<close>) the phase of that call is left open
  here. The drop calls the same handler once with the phase \<open>drop\<close>, in both copies.
\<close>

theorem resize_hover_and_drop:
  assumes "item_type monitorItem = ''resizeL'' \<or> item_type monitorItem = ''resizeR''"
  shows "dropTarget_hover env type' value ItemTypes_RESIZE monitorItem w =
           (None,
            if (\<exists>v. RBC_RESIZE_VALUE w = Some v \<and> toString env v = toString env value) then w
            else w\<lparr>RBC_RESIZE_VALUE := Some value,
                   calls := calls w @
                     [if item_type monitorItem = ''resizeL''
                      then OnEventResize ''hover'' (item_data monitorItem) value
                             (ev_end (item_data monitorItem))
                      else OnEventResize ''hover'' (item_data monitorItem)
                             (ev_start (item_data monitorItem)) value]\<rparr>)
       \<and> st_levels (snd (dropTarget_hover env type' value ItemTypes_RESIZE monitorItem w)) =
           st_levels w
       \<and> dropTarget_drop type' value ItemTypes_RESIZE monitorItem w =
           w\<lparr>calls := calls w @
                [if item_type monitorItem = ''resizeL''
                 then OnEventResize ''drop'' (item_data monitorItem) value
                        (ev_end (item_data monitorItem))
                 else OnEventResize ''drop'' (item_data monitorItem)
                        (ev_start (item_data monitorItem)) value]\<rparr>
       \<and> (\<exists>phase.
            bw_dropTarget_hover env value ItemTypes_RESIZE monitorItem w =
              (if (\<exists>v. RBC_RESIZE_VALUE w = Some v \<and> toString env v = toString env value) then w
               else w\<lparr>RBC_RESIZE_VALUE := Some value,
                      calls := calls w @
                        [if item_type monitorItem = ''resizeL''
                         then OnEventResize phase (item_data monitorItem) value
                                (ev_end (item_data monitorItem))
                         else OnEventResize phase (item_data monitorItem)
                                (ev_start (item_data monitorItem)) value]\<rparr>))
       \<and> st_levels (bw_dropTarget_hover env value ItemTypes_RESIZE monitorItem w) = st_levels w
       \<and> bw_dropTarget_drop type' value ItemTypes_RESIZE monitorItem w =
           w\<lparr>calls := calls w @
                [if item_type monitorItem = ''resizeL''
                 then OnEventResize ''drop'' (item_data monitorItem) value
                        (ev_end (item_data monitorItem))
                 else OnEventResize ''drop'' (item_data monitorItem)
                        (ev_start (item_data monitorItem)) value]\<rparr>"
proof -
  have later: "dropTarget_hover env type' value ItemTypes_RESIZE monitorItem w =
           (None,
            if (\<exists>v. RBC_RESIZE_VALUE w = Some v \<and> toString env v = toString env value) then w
            else w\<lparr>RBC_RESIZE_VALUE := Some value,
                   calls := calls w @
                     [if item_type monitorItem = ''resizeL''
                      then OnEventResize ''hover'' (item_data monitorItem) value
                             (ev_end (item_data monitorItem))
                      else OnEventResize ''hover'' (item_data monitorItem)
                             (ev_start (item_data monitorItem)) value]\<rparr>)"
    using assms
    by (cases "RBC_RESIZE_VALUE w") (auto simp add: dropTarget_hover_def invoke_def Let_def)
  have later_levels:
    "st_levels (snd (dropTarget_hover env type' value ItemTypes_RESIZE monitorItem w)) = st_levels w"
    unfolding later by simp
  have drops: "dropTarget_drop type' value ItemTypes_RESIZE monitorItem w =
           w\<lparr>calls := calls w @
                [if item_type monitorItem = ''resizeL''
                 then OnEventResize ''drop'' (item_data monitorItem) value
                        (ev_end (item_data monitorItem))
                 else OnEventResize ''drop'' (item_data monitorItem)
                        (ev_start (item_data monitorItem)) value]\<rparr>"
    "bw_dropTarget_drop type' value ItemTypes_RESIZE monitorItem w =
           w\<lparr>calls := calls w @
                [if item_type monitorItem = ''resizeL''
                 then OnEventResize ''drop'' (item_data monitorItem) value
                        (ev_end (item_data monitorItem))
                 else OnEventResize ''drop'' (item_data monitorItem)
                        (ev_start (item_data monitorItem)) value]\<rparr>"
    using assms
    by (auto simp add: dropTarget_drop_def bw_dropTarget_drop_def invoke_def Let_def
        ItemTypes_RESIZE_def ItemTypes_EVENT_def)
  have bw: "bw_dropTarget_hover env value ItemTypes_RESIZE monitorItem w =
              (if (\<exists>v. RBC_RESIZE_VALUE w = Some v \<and> toString env v = toString env value) then w
               else w\<lparr>RBC_RESIZE_VALUE := Some value,
                      calls := calls w @
                        [if item_type monitorItem = ''resizeL''
                         then OnEventResize ''drop'' (item_data monitorItem) value
                                (ev_end (item_data monitorItem))
                         else OnEventResize ''drop'' (item_data monitorItem)
                                (ev_start (item_data monitorItem)) value]\<rparr>)"
    using assms
    by (cases "RBC_RESIZE_VALUE w") (auto simp add: bw_dropTarget_hover_def invoke_def Let_def)
  have bw_levels:
    "st_levels (bw_dropTarget_hover env value ItemTypes_RESIZE monitorItem w) = st_levels w"
    unfolding bw by simp
  from bw have bw_ex: "\<exists>phase.
            bw_dropTarget_hover env value ItemTypes_RESIZE monitorItem w =
              (if (\<exists>v. RBC_RESIZE_VALUE w = Some v \<and> toString env v = toString env value) then w
               else w\<lparr>RBC_RESIZE_VALUE := Some value,
                      calls := calls w @
                        [if item_type monitorItem = ''resizeL''
                         then OnEventResize phase (item_data monitorItem) value
                                (ev_end (item_data monitorItem))
                         else OnEventResize phase (item_data monitorItem)
                                (ev_start (item_data monitorItem)) value]\<rparr>)"
    by (rule exI)
  from later later_levels drops bw_ex bw_levels show ?thesis by blast
qed

theorem resize_hover_and_drop_witness:
  "dropTarget_hover sampleEnv ''dayWrapper'' 1000 ItemTypes_RESIZE (sampleItem ''resizeR'') sampleWorld =
     (None, sampleWorld\<lparr>RBC_RESIZE_VALUE := Some 1000,
                  calls := [OnEventResize ''hover'' (sampleEvent ''A'' 1) 1709251200000 1000]\<rparr>)
   \<and> dropTarget_drop ''dayWrapper'' 1000 ItemTypes_RESIZE (sampleItem ''resizeR'') sampleWorld =
     sampleWorld\<lparr>calls := [OnEventResize ''drop'' (sampleEvent ''A'' 1) 1709251200000 1000]\<rparr>
   \<and> st_levels (bw_dropTarget_hover sampleEnv 1000 ItemTypes_RESIZE (sampleItem ''resizeR'')
        sampleWorld) = sampleLevels
   \<and> bw_dropTarget_drop ''dayWrapper'' 1000 ItemTypes_RESIZE (sampleItem ''resizeR'') sampleWorld =
     sampleWorld\<lparr>calls := [OnEventResize ''drop'' (sampleEvent ''A'' 1) 1709251200000 1000]\<rparr>"
proof -
  have h: "item_type (sampleItem ''resizeR'') = ''resizeL''
         \<or> item_type (sampleItem ''resizeR'') = ''resizeR''"
    by (simp add: sampleItem_def)
  note r = resize_hover_and_drop [OF h, of sampleEnv "''dayWrapper''" 1000 sampleWorld]
  from r have "dropTarget_hover sampleEnv ''dayWrapper'' 1000 ItemTypes_RESIZE (sampleItem ''resizeR'')
      sampleWorld =
     (None, sampleWorld\<lparr>RBC_RESIZE_VALUE := Some 1000,
                  calls := [OnEventResize ''hover'' (sampleEvent ''A'' 1) 1709251200000 1000]\<rparr>)"
    by (simp add: sampleItem_def sampleWorld_def sampleEvent_def)
  moreover from r have "dropTarget_drop ''dayWrapper'' 1000 ItemTypes_RESIZE (sampleItem ''resizeR'')
      sampleWorld =
     sampleWorld\<lparr>calls := [OnEventResize ''drop'' (sampleEvent ''A'' 1) 1709251200000 1000]\<rparr>"
    by (simp add: sampleItem_def sampleWorld_def sampleEvent_def)
  moreover from r have "bw_dropTarget_drop ''dayWrapper'' 1000 ItemTypes_RESIZE (sampleItem ''resizeR'')
      sampleWorld =
     sampleWorld\<lparr>calls := [OnEventResize ''drop'' (sampleEvent ''A'' 1) 1709251200000 1000]\<rparr>"
    by (simp add: sampleItem_def sampleWorld_def sampleEvent_def)
  moreover from r have "st_levels (bw_dropTarget_hover sampleEnv 1000 ItemTypes_RESIZE
      (sampleItem ''resizeR'') sampleWorld) = sampleLevels"
    by (simp add: sampleWorld_def)
  ultimately show ?thesis by blast
qed

text \<open>
  C7 as the claim states it fails: of two resize hover ticks on the same value, only the
  first calls the handler, in either copy of the file.
\<close>

theorem resize_hover_every_tick_counterexample:
  "length (calls (snd (dropTarget_hover sampleEnv ''dayWrapper'' 1000 ItemTypes_RESIZE
       (sampleItem ''resizeR'')
       (snd (dropTarget_hover sampleEnv ''dayWrapper'' 1000 ItemTypes_RESIZE (sampleItem ''resizeR'')
          sampleWorld))))) = 1
   \<and> length (calls (bw_dropTarget_hover sampleEnv 1000 ItemTypes_RESIZE (sampleItem ''resizeR'')
       (bw_dropTarget_hover sampleEnv 1000 ItemTypes_RESIZE (sampleItem ''resizeR'')
          sampleWorld))) = 1"
  by (simp add: dropTarget_hover_def bw_dropTarget_hover_def sampleWorld_def sampleItem_def
      ItemTypes_RESIZE_def invoke_def Let_def)

end
